theory Spec2Isabelle
  imports Complex_Main
begin

section \<open>Values shared by the pipeline\<close>

text \<open>
  Python strings are modelled as \<^typ>\<open>string\<close>, one list element per character of the
  Python \<open>str\<close>, so that \<open>s[:n]\<close> is \<^term>\<open>take n s\<close> and \<open>len(s)\<close> is \<^term>\<open>length s\<close>.
  Timestamps (\<open>created_utc\<close>, \<open>datetime.timestamp()\<close>) are finite Python floats; they are only
  compared and copied, and are modelled by the rational numbers they denote.

  A Python exception is a value: its class and the text \<open>str(e)\<close> gives.
\<close>

datatype exn_class =
    TransportError | APIError | IndexError | TypeError | AttributeError | ValueError
  | JSONDecodeError | FileNotFoundError

datatype exn = Exn (exn_class: exn_class) (str_exn: string)

section \<open>reddit_fetcher.py\<close>

subsection \<open>Data\<close>

text \<open>
  What PRAW hands to the fetcher: a submission of the listing \<open>subreddit.new(limit=None)\<close>, and
  the items of \<open>submission.comments.list()\<close>. An author is \<open>None\<close> for a deleted account. An
  item of a comment forest is a comment or a \<open>MoreComments\<close> placeholder, which has no \<open>body\<close>
  attribute.
\<close>

record submission =
  s_id :: string
  s_title :: string
  s_author :: "string option"
  s_created_utc :: rat
  s_score :: int
  s_num_comments :: int
  s_selftext :: string
  s_url :: string
  s_permalink :: string
  s_is_self :: bool

record praw_comment =
  c_id :: string
  c_author :: "string option"
  c_body :: string
  c_score :: int
  c_created_utc :: rat
  c_parent_id :: string
  c_is_submitter :: bool

datatype forest_item = CommentItem praw_comment | MoreCommentsItem

text \<open>The dictionaries the fetcher builds, with the keys of the source as fields.\<close>

record comment =
  comment_id :: string
  comment_author :: string
  comment_body :: string
  comment_score :: int
  comment_created_utc :: rat
  comment_created_date :: string
  comment_parent_id :: string
  comment_is_submitter :: bool

record post =
  post_id :: string
  post_title :: string
  post_author :: string
  post_created_utc :: rat
  post_created_date :: string
  post_score :: int
  post_num_comments :: int
  post_selftext :: string
  post_url :: string
  post_permalink :: string
  post_is_self :: bool
  post_comments :: "comment list"

subsection \<open>fetch_posts\<close>

text \<open>
  \<open>str(x.author) if x.author else '[deleted]'\<close>. The removed-sentinel of the source is the
  literal \<open>'[deleted]'\<close>.
\<close>

definition removed_sentinel :: string where
  "removed_sentinel = ''[deleted]''"

definition author_str :: "string option \<Rightarrow> string" where
  "author_str a = (case a of None \<Rightarrow> removed_sentinel | Some n \<Rightarrow> n)"

text \<open>
  \<open>_extract_post_data\<close>. The parameter \<open>isoformat\<close> stands for
  \<open>datetime.fromtimestamp(t).isoformat()\<close>, which depends on the local time zone.
\<close>

definition extract_post_data :: "(rat \<Rightarrow> string) \<Rightarrow> submission \<Rightarrow> post" where
  "extract_post_data isoformat s =
     \<lparr> post_id = s_id s,
       post_title = s_title s,
       post_author = author_str (s_author s),
       post_created_utc = s_created_utc s,
       post_created_date = isoformat (s_created_utc s),
       post_score = s_score s,
       post_num_comments = s_num_comments s,
       post_selftext = s_selftext s,
       post_url = s_url s,
       post_permalink = ''https://reddit.com'' @ s_permalink s,
       post_is_self = s_is_self s,
       post_comments = [] \<rparr>"

text \<open>
  \<open>(datetime.now() - timedelta(days=lookback_days)).timestamp()\<close>, with \<open>now\<close> the
  timestamp of \<open>datetime.now()\<close> and a day of 86400 seconds.
\<close>

definition cutoff_timestamp :: "rat \<Rightarrow> int \<Rightarrow> rat" where
  "cutoff_timestamp now lookback_days = now - 86400 * of_int lookback_days"

text \<open>
  The test \<open>limit and len(posts) >= limit\<close>: \<open>limit\<close> is falsy when it is \<open>None\<close> and when
  it is \<open>0\<close>.
\<close>

definition limit_reached :: "int option \<Rightarrow> post list \<Rightarrow> bool" where
  "limit_reached limit posts =
     (case limit of None \<Rightarrow> False | Some n \<Rightarrow> n \<noteq> 0 \<and> n \<le> int (length posts))"

text \<open>
  The loop of \<open>fetch_posts\<close> over the listing generator. The generator is the list of what
  each \<open>next()\<close> gives: a submission, or an exception of the transport, which leaves the
  function. The generator is lazy, so an exception behind the \<open>break\<close> is never seen.
\<close>

fun fetch_posts_loop ::
  "(rat \<Rightarrow> string) \<Rightarrow> rat \<Rightarrow> int option \<Rightarrow> (exn + submission) list \<Rightarrow> post list \<Rightarrow> exn + post list"
where
  "fetch_posts_loop isoformat cutoff limit [] posts = Inr posts"
| "fetch_posts_loop isoformat cutoff limit (Inl e # rest) posts = Inl e"
| "fetch_posts_loop isoformat cutoff limit (Inr s # rest) posts =
     (if s_created_utc s < cutoff then Inr posts
      else if limit_reached limit posts then Inr posts
      else fetch_posts_loop isoformat cutoff limit rest (posts @ [extract_post_data isoformat s]))"

definition fetch_posts ::
  "(rat \<Rightarrow> string) \<Rightarrow> rat \<Rightarrow> (exn + submission) list \<Rightarrow> int \<Rightarrow> int option \<Rightarrow> exn + post list"
where
  "fetch_posts isoformat now new_listing lookback_days limit =
     fetch_posts_loop isoformat (cutoff_timestamp now lookback_days) limit new_listing []"

subsection \<open>fetch_comments\<close>

definition extract_comment :: "(rat \<Rightarrow> string) \<Rightarrow> praw_comment \<Rightarrow> comment" where
  "extract_comment isoformat c =
     \<lparr> comment_id = c_id c,
       comment_author = author_str (c_author c),
       comment_body = c_body c,
       comment_score = c_score c,
       comment_created_utc = c_created_utc c,
       comment_created_date = isoformat (c_created_utc c),
       comment_parent_id = c_parent_id c,
       comment_is_submitter = c_is_submitter c \<rparr>"

text \<open>
  The inner loop over \<open>submission.comments.list()\<close>, with the two variables \<open>comments\<close> and
  \<open>comment_count\<close> of the source.
\<close>

fun collect_comments ::
  "(rat \<Rightarrow> string) \<Rightarrow> int \<Rightarrow> forest_item list \<Rightarrow> comment list \<Rightarrow> nat \<Rightarrow> comment list"
where
  "collect_comments isoformat max_comments_per_post [] comments comment_count = comments"
| "collect_comments isoformat max_comments_per_post (item # rest) comments comment_count =
     (if max_comments_per_post \<le> int comment_count then comments
      else (case item of
              MoreCommentsItem \<Rightarrow>
                collect_comments isoformat max_comments_per_post rest comments comment_count
            | CommentItem c \<Rightarrow>
                if c_body c \<noteq> removed_sentinel
                then collect_comments isoformat max_comments_per_post rest
                       (comments @ [extract_comment isoformat c]) (Suc comment_count)
                else collect_comments isoformat max_comments_per_post rest comments comment_count))"

text \<open>
  The outer loop. \<open>forest\<close> stands for the forum: for a post identifier, the flattened comment
  forest after \<open>replace_more(limit=0)\<close>, or the exception the request raised, which leaves
  \<open>fetch_comments\<close>.
\<close>

fun fetch_comments ::
  "(rat \<Rightarrow> string) \<Rightarrow> (string \<Rightarrow> exn + forest_item list) \<Rightarrow> post list \<Rightarrow> int \<Rightarrow> exn + post list"
where
  "fetch_comments isoformat forest [] max_comments_per_post = Inr []"
| "fetch_comments isoformat forest (p # posts) max_comments_per_post =
     (case forest (post_id p) of
        Inl e \<Rightarrow> Inl e
      | Inr items \<Rightarrow>
          (case fetch_comments isoformat forest posts max_comments_per_post of
             Inl e \<Rightarrow> Inl e
           | Inr posts' \<Rightarrow>
               Inr (p\<lparr>post_comments := collect_comments isoformat max_comments_per_post items [] 0\<rparr>
                    # posts')))"

definition fetch_all_content ::
  "(rat \<Rightarrow> string) \<Rightarrow> rat \<Rightarrow> (exn + submission) list \<Rightarrow> (string \<Rightarrow> exn + forest_item list) \<Rightarrow>
   int \<Rightarrow> int option \<Rightarrow> int \<Rightarrow> exn + post list"
where
  "fetch_all_content isoformat now new_listing forest lookback_days post_limit max_comments_per_post =
     (case fetch_posts isoformat now new_listing lookback_days post_limit of
        Inl e \<Rightarrow> Inl e
      | Inr posts \<Rightarrow>
          if posts \<noteq> [] then fetch_comments isoformat forest posts max_comments_per_post
          else Inr posts)"

section \<open>openai_analyzer.py\<close>

subsection \<open>JSON values and the completion capability\<close>

text \<open>
  What \<open>json.loads\<close> returns: the Python value of a JSON text. An object is the list of its
  items in insertion order; a Python \<open>dict\<close> has no key twice.
\<close>

datatype json =
    JNull
  | JBool bool
  | JInt int
  | JFloat rat
  | JStr string
  | JArr "json list"
  | JObj "(string \<times> json) list"

text \<open>
  \<open>json.loads\<close> and \<open>json.dumps\<close> are the standard library's, and are parameters of the
  model: \<open>loads\<close> gives the value or the exception it raised, \<open>dumps ensure_ascii v\<close> is
  the text of \<open>json.dumps(v, indent=2, ensure_ascii=...)\<close>.
\<close>

type_synonym loads_fn = "string \<Rightarrow> exn + json"
type_synonym dumps_fn = "bool \<Rightarrow> json \<Rightarrow> string"

text \<open>
  A call of \<open>client.chat.completions.create\<close>. The request carries the model name and the two
  messages (the sampling temperature and the response format are the same constants in both
  calls). The service is an external state \<open>'w\<close>: a call gives the exception it raised, or the
  \<open>message.content\<close> of each of \<open>response.choices\<close> (\<open>None\<close> for a null content), and the next
  state.
\<close>

record request =
  model :: string
  system_message :: string
  user_message :: string

type_synonym 'w client = "'w \<Rightarrow> request \<Rightarrow> (exn + string option list) \<times> 'w"

text \<open>The name of a value's Python type, and a text between apostrophes, for messages.\<close>

fun type_name :: "json \<Rightarrow> string" where
  "type_name JNull = ''NoneType''"
| "type_name (JBool b) = ''bool''"
| "type_name (JInt i) = ''int''"
| "type_name (JFloat f) = ''float''"
| "type_name (JStr s) = ''str''"
| "type_name (JArr xs) = ''list''"
| "type_name (JObj items) = ''dict''"

definition quoted :: "string \<Rightarrow> string" where
  "quoted s = [CHR 0x27] @ s @ [CHR 0x27]"

text \<open>\<open>response.choices[0].message.content\<close>\<close>

definition first_content :: "string option list \<Rightarrow> exn + string option" where
  "first_content choices =
     (case choices of
        [] \<Rightarrow> Inl (Exn IndexError ''list index out of range'')
      | c # _ \<Rightarrow> Inr c)"

text \<open>\<open>json.loads(content)\<close>, where \<open>content\<close> may be \<open>None\<close>.\<close>

definition loads_content :: "loads_fn \<Rightarrow> string option \<Rightarrow> exn + json" where
  "loads_content loads content =
     (case content of
        None \<Rightarrow>
          Inl (Exn TypeError ''the JSON object must be str, bytes or bytearray, not NoneType'')
      | Some s \<Rightarrow> loads s)"

text \<open>\<open>result.get('problems', [])\<close>: only a \<open>dict\<close> has the method.\<close>

definition get_problems :: "json \<Rightarrow> exn + json" where
  "get_problems result =
     (case result of
        JObj items \<Rightarrow>
          Inr (case map_of items ''problems'' of None \<Rightarrow> JArr [] | Some v \<Rightarrow> v)
      | _ \<Rightarrow>
          Inl (Exn AttributeError
                 (quoted (type_name result) @ '' object has no attribute '' @ quoted ''get'')))"

text \<open>Truth value of a Python value, as \<open>if batch_analysis:\<close> tests it.\<close>

fun truthy :: "json \<Rightarrow> bool" where
  "truthy JNull = False"
| "truthy (JBool b) = b"
| "truthy (JInt i) = (i \<noteq> 0)"
| "truthy (JFloat f) = (f \<noteq> 0)"
| "truthy (JStr s) = (s \<noteq> [])"
| "truthy (JArr xs) = (xs \<noteq> [])"
| "truthy (JObj items) = (items \<noteq> [])"

text \<open>
  The elements \<open>list.extend(v)\<close> appends: those of a list, the characters of a string, the
  keys of a dict; any other value is not iterable.
\<close>

fun py_iter :: "json \<Rightarrow> exn + json list" where
  "py_iter (JArr xs) = Inr xs"
| "py_iter (JStr s) = Inr (map (\<lambda>c. JStr [c]) s)"
| "py_iter (JObj items) = Inr (map (\<lambda>kv. JStr (fst kv)) items)"
| "py_iter v = Inl (Exn TypeError (quoted (type_name v) @ '' object is not iterable''))"

subsection \<open>_prepare_content_for_analysis\<close>

text \<open>\<open>sep.join(parts)\<close>\<close>

fun join :: "string \<Rightarrow> string list \<Rightarrow> string" where
  "join sep [] = []"
| "join sep [x] = x"
| "join sep (x # y # ys) = x @ sep @ join sep (y # ys)"

definition comment_line :: "comment \<Rightarrow> string" where
  "comment_line c = ''- '' @ take 200 (comment_body c) @ ''...\<newline>''"

definition post_content :: "post \<Rightarrow> string" where
  "post_content p =
     ''POST: '' @ post_title p @ ''\<newline>''
     @ (if post_selftext p \<noteq> [] then ''BODY: '' @ post_selftext p @ ''\<newline>'' else [])
     @ (if post_comments p \<noteq> []
        then ''TOP COMMENTS:\<newline>'' @ concat (map comment_line (take 5 (post_comments p)))
        else [])"

definition prepare_content_for_analysis :: "post list \<Rightarrow> string" where
  "prepare_content_for_analysis posts = join ''\<newline>---\<newline>'' (map post_content posts)"

subsection \<open>_analyze_batch\<close>

definition analysis_prompt_head :: string where
  "analysis_prompt_head =
     ''Analyze these Reddit posts from r/recruitinghell and identify the main recruitment problems people are complaining about.\<newline>''
     @ ''\<newline>''
     @ ''For each problem identified, provide:\<newline>''
     @ ''1. Problem title (short, descriptive)\<newline>''
     @ ''2. Description (2-3 sentences)\<newline>''
     @ ''3. Frequency (how often it appears)\<newline>''
     @ ''4. Example quotes or situations\<newline>''
     @ ''\<newline>''
     @ ''Focus on concrete, specific problems rather than general complaints.\<newline>''
     @ ''\<newline>''
     @ ''Content to analyze:\<newline>''"

definition analysis_prompt_tail :: string where
  "analysis_prompt_tail =
     ''\<newline>''
     @ ''\<newline>''
     @ ''Return your analysis as a JSON array of problems.''"

text \<open>The template with \<open>content[:8000]\<close> in the place of \<open>{content}\<close>.\<close>

definition analysis_prompt :: "string \<Rightarrow> string" where
  "analysis_prompt content = analysis_prompt_head @ take 8000 content @ analysis_prompt_tail"

definition analysis_request :: "post list \<Rightarrow> request" where
  "analysis_request posts =
     \<lparr> model = ''gpt-4o-mini'',
       system_message = ''You are an expert at analyzing recruitment and hiring practices. Extract specific, actionable problems from Reddit posts.'',
       user_message = analysis_prompt (prepare_content_for_analysis posts) \<rparr>"

text \<open>The body of the \<open>try\<close>: an exception raised anywhere in it is the \<open>Inl\<close> result.\<close>

definition analyze_batch_try ::
  "'w client \<Rightarrow> loads_fn \<Rightarrow> post list \<Rightarrow> 'w \<Rightarrow> (exn + json) \<times> 'w"
where
  "analyze_batch_try client loads posts w =
     (case client w (analysis_request posts) of
        (Inl e, w') \<Rightarrow> (Inl e, w')
      | (Inr choices, w') \<Rightarrow>
          (case first_content choices of
             Inl e \<Rightarrow> (Inl e, w')
           | Inr content \<Rightarrow>
               (case loads_content loads content of
                  Inl e \<Rightarrow> (Inl e, w')
                | Inr result \<Rightarrow> (get_problems result, w'))))"

text \<open>\<open>_analyze_batch\<close>: \<open>except Exception\<close> prints the exception and returns \<open>[]\<close>.\<close>

definition analyze_batch :: "'w client \<Rightarrow> loads_fn \<Rightarrow> post list \<Rightarrow> 'w \<Rightarrow> json \<times> 'w" where
  "analyze_batch client loads posts w =
     (case analyze_batch_try client loads posts w of
        (Inl e, w') \<Rightarrow> (JArr [], w')
      | (Inr problems, w') \<Rightarrow> (problems, w'))"

subsection \<open>analyze_recruitment_problems\<close>

text \<open>
  \<open>range(0, len(posts), batch_size)\<close>: a zero step raises \<open>ValueError\<close>, a negative step gives
  an empty range from \<open>0\<close>, a positive step counts up while the index is below the length.
\<close>

function range_from :: "nat \<Rightarrow> nat \<Rightarrow> nat \<Rightarrow> nat list" where
  "range_from i n step = (if 0 < step \<and> i < n then i # range_from (i + step) n step else [])"
  by pat_completeness auto
termination
  by (relation "measure (\<lambda>(i, n, step). n - i)") auto

declare range_from.simps [simp del]

definition batch_starts :: "nat \<Rightarrow> int \<Rightarrow> exn + nat list" where
  "batch_starts n batch_size =
     (if batch_size = 0 then Inl (Exn ValueError ''range() arg 3 must not be zero'')
      else if batch_size < 0 then Inr []
      else Inr (range_from 0 n (nat batch_size)))"

text \<open>The slices \<open>posts[i:i + batch_size]\<close> the loop takes, in the order it takes them.\<close>

definition batches :: "post list \<Rightarrow> int \<Rightarrow> exn + post list list" where
  "batches posts batch_size =
     (case batch_starts (length posts) batch_size of
        Inl e \<Rightarrow> Inl e
      | Inr starts \<Rightarrow> Inr (map (\<lambda>i. take (nat batch_size) (drop i posts)) starts))"

text \<open>
  The loop body for one batch, and the loop: \<open>all_problems\<close> is extended by a truthy result of
  \<open>_analyze_batch\<close>; \<open>extend\<close> raises on a value that is not iterable, which leaves
  \<open>analyze_recruitment_problems\<close>.
\<close>

definition contribution :: "json \<Rightarrow> exn + json list" where
  "contribution batch_analysis = (if truthy batch_analysis then py_iter batch_analysis else Inr [])"

fun analyze_batches ::
  "'w client \<Rightarrow> loads_fn \<Rightarrow> post list list \<Rightarrow> json list \<Rightarrow> 'w \<Rightarrow> (exn + json list) \<times> 'w"
where
  "analyze_batches client loads [] all_problems w = (Inr all_problems, w)"
| "analyze_batches client loads (batch # rest) all_problems w =
     (case analyze_batch client loads batch w of
        (batch_analysis, w') \<Rightarrow>
          (case contribution batch_analysis of
             Inl e \<Rightarrow> (Inl e, w')
           | Inr new \<Rightarrow> analyze_batches client loads rest (all_problems @ new) w'))"

subsection \<open>_summarize_problems\<close>

definition summary_prompt_head :: string where
  "summary_prompt_head =
     ''Given this list of recruitment problems identified from Reddit posts, create a comprehensive summary.\<newline>''
     @ ''\<newline>''
     @ ''Group similar problems together and rank them by frequency/severity.\<newline>''
     @ ''\<newline>''
     @ ''Provide:\<newline>''
     @ ''1. Top 10 most common recruitment problems (ranked)\<newline>''
     @ ''2. Key themes and patterns\<newline>''
     @ ''3. Specific examples for each problem\<newline>''
     @ ''4. Brief recommendations for job seekers\<newline>''
     @ ''\<newline>''
     @ ''Problems list:\<newline>''"

definition summary_prompt_tail :: string where
  "summary_prompt_tail =
     ''\<newline>''
     @ ''\<newline>''
     @ ''Format as a structured JSON response with clear categories.''"

text \<open>The template with \<open>problems_text[:10000]\<close> in the place of \<open>{problems}\<close>.\<close>

definition summary_prompt :: "string \<Rightarrow> string" where
  "summary_prompt problems_text =
     summary_prompt_head @ take 10000 problems_text @ summary_prompt_tail"

definition summary_request :: "dumps_fn \<Rightarrow> json list \<Rightarrow> request" where
  "summary_request dumps all_problems =
     \<lparr> model = ''gpt-4o-mini'',
       system_message = ''You are an expert at synthesizing and summarizing recruitment industry problems.'',
       user_message = summary_prompt (dumps True (JArr all_problems)) \<rparr>"

definition summarize_try ::
  "'w client \<Rightarrow> loads_fn \<Rightarrow> dumps_fn \<Rightarrow> json list \<Rightarrow> 'w \<Rightarrow> (exn + json) \<times> 'w"
where
  "summarize_try client loads dumps all_problems w =
     (case client w (summary_request dumps all_problems) of
        (Inl e, w') \<Rightarrow> (Inl e, w')
      | (Inr choices, w') \<Rightarrow>
          (case first_content choices of
             Inl e \<Rightarrow> (Inl e, w')
           | Inr content \<Rightarrow> (loads_content loads content, w')))"

text \<open>The error-tagged result \<open>{"error": text}\<close>.\<close>

definition error_report :: "string \<Rightarrow> json" where
  "error_report text = JObj [(''error'', JStr text)]"

definition summarize_problems ::
  "'w client \<Rightarrow> loads_fn \<Rightarrow> dumps_fn \<Rightarrow> json list \<Rightarrow> 'w \<Rightarrow> json \<times> 'w"
where
  "summarize_problems client loads dumps all_problems w =
     (if all_problems = [] then (error_report ''No problems identified'', w)
      else (case summarize_try client loads dumps all_problems w of
              (Inl e, w') \<Rightarrow> (error_report (str_exn e), w')
            | (Inr summary, w') \<Rightarrow> (summary, w')))"

text \<open>What follows the loop: the summary of the accumulated problems is the result.\<close>

definition summarize_after ::
  "'w client \<Rightarrow> loads_fn \<Rightarrow> dumps_fn \<Rightarrow> (exn + json list) \<times> 'w \<Rightarrow> (exn + json) \<times> 'w"
where
  "summarize_after client loads dumps looped =
     (case looped of
        (Inl e, w') \<Rightarrow> (Inl e, w')
      | (Inr all_problems, w') \<Rightarrow>
          (case summarize_problems client loads dumps all_problems w' of
             (final_analysis, w'') \<Rightarrow> (Inr final_analysis, w'')))"

definition analyze_recruitment_problems ::
  "'w client \<Rightarrow> loads_fn \<Rightarrow> dumps_fn \<Rightarrow> post list \<Rightarrow> int \<Rightarrow> 'w \<Rightarrow> (exn + json) \<times> 'w"
where
  "analyze_recruitment_problems client loads dumps posts batch_size w =
     (case batches posts batch_size of
        Inl e \<Rightarrow> (Inl e, w)
      | Inr bs \<Rightarrow> summarize_after client loads dumps (analyze_batches client loads bs [] w))"

subsection \<open>generate_report\<close>

text \<open>
  Files are a map from paths to texts; \<open>open(path, 'w')\<close> followed by \<open>json.dump\<close> replaces the
  text at the path.
\<close>

type_synonym files = "string \<rightharpoonup> string"

definition generate_report :: "dumps_fn \<Rightarrow> json \<Rightarrow> string \<Rightarrow> files \<Rightarrow> files" where
  "generate_report dumps analysis output_file fs = fs(output_file \<mapsto> dumps False analysis)"

section \<open>main.py\<close>

subsection \<open>The raw data on disk\<close>

text \<open>
  The posts are Python dictionaries; these are their values as \<open>json.dump\<close> sees them, with
  the keys in the order \<open>_extract_post_data\<close> and \<open>fetch_comments\<close> insert them.
\<close>

definition comment_json :: "comment \<Rightarrow> json" where
  "comment_json c =
     JObj [(''id'', JStr (comment_id c)),
           (''author'', JStr (comment_author c)),
           (''body'', JStr (comment_body c)),
           (''score'', JInt (comment_score c)),
           (''created_utc'', JFloat (comment_created_utc c)),
           (''created_date'', JStr (comment_created_date c)),
           (''parent_id'', JStr (comment_parent_id c)),
           (''is_submitter'', JBool (comment_is_submitter c))]"

definition post_json :: "post \<Rightarrow> json" where
  "post_json p =
     JObj [(''id'', JStr (post_id p)),
           (''title'', JStr (post_title p)),
           (''author'', JStr (post_author p)),
           (''created_utc'', JFloat (post_created_utc p)),
           (''created_date'', JStr (post_created_date p)),
           (''score'', JInt (post_score p)),
           (''num_comments'', JInt (post_num_comments p)),
           (''selftext'', JStr (post_selftext p)),
           (''url'', JStr (post_url p)),
           (''permalink'', JStr (post_permalink p)),
           (''is_self'', JBool (post_is_self p)),
           (''comments'', JArr (map comment_json (post_comments p)))]"

definition posts_json :: "post list \<Rightarrow> json" where
  "posts_json posts = JArr (map post_json posts)"

text \<open>
  The raw-save path (\<open>if save_raw and posts:\<close>). \<open>timestamp\<close> is
  \<open>datetime.now().strftime("%Y-%m-%d_%H-%M")\<close>.
\<close>

definition raw_filename :: "string \<Rightarrow> string" where
  "raw_filename timestamp = ''reddit_data_'' @ timestamp @ ''.json''"

definition save_raw_data :: "dumps_fn \<Rightarrow> string \<Rightarrow> bool \<Rightarrow> post list \<Rightarrow> files \<Rightarrow> files" where
  "save_raw_data dumps timestamp save_raw posts fs =
     (if save_raw \<and> posts \<noteq> [] then fs(raw_filename timestamp \<mapsto> dumps False (posts_json posts))
      else fs)"

text \<open>
  The load-from-file path. \<open>Inl 1\<close> is \<open>exit(1)\<close>: the file is missing, or \<open>json.load\<close>
  raised (a \<open>JSONDecodeError\<close> is reported, any other exception ends the process with the
  same status).
\<close>

definition load_from_file :: "loads_fn \<Rightarrow> files \<Rightarrow> string \<Rightarrow> int + json" where
  "load_from_file loads fs path =
     (case fs path of
        None \<Rightarrow> Inl 1
      | Some content \<Rightarrow> (case loads content of Inl e \<Rightarrow> Inl 1 | Inr posts \<Rightarrow> Inr posts))"

subsection \<open>Analysis and report\<close>

text \<open>
  Step 2 of \<open>main\<close> up to the written report: the analysis with the default batch size, then
  \<open>generate_report(analysis, f"{output}.json")\<close>. An exception of the analysis leaves the
  \<open>try\<close> before anything is written. The display of the findings, which follows, reads the
  analysis and writes no file.
\<close>

definition analyze_and_report ::
  "'w client \<Rightarrow> loads_fn \<Rightarrow> dumps_fn \<Rightarrow> post list \<Rightarrow> string \<Rightarrow> 'w \<Rightarrow> files \<Rightarrow>
   (exn + json) \<times> 'w \<times> files"
where
  "analyze_and_report client loads dumps posts output w fs =
     (case analyze_recruitment_problems client loads dumps posts 10 w of
        (Inl e, w') \<Rightarrow> (Inl e, w', fs)
      | (Inr analysis, w') \<Rightarrow>
          (Inr analysis, w', generate_report dumps analysis (output @ ''.json'') fs))"

section \<open>Instruments and sample data\<close>

text \<open>
  Two clients for observing the analyzer. \<open>scripted\<close> answers each call with the next outcome
  of a script (and raises once the script is used up); \<open>logged client\<close> behaves as \<open>client\<close>
  and appends every request it receives to a log.
\<close>

definition scripted :: "(exn + string option list) list client" where
  "scripted script req =
     (case script of
        [] \<Rightarrow> (Inl (Exn APIError ''Connection error.''), [])
      | outcome # rest \<Rightarrow> (outcome, rest))"

definition logged :: "'w client \<Rightarrow> ('w \<times> request list) client" where
  "logged client wl req =
     (case client (fst wl) req of (outcome, w') \<Rightarrow> (outcome, (w', snd wl @ [req])))"

text \<open>The results \<open>_analyze_batch\<close> returns for the batches, called in order.\<close>

fun batch_analyses :: "'w client \<Rightarrow> loads_fn \<Rightarrow> post list list \<Rightarrow> 'w \<Rightarrow> json list" where
  "batch_analyses client loads [] w = []"
| "batch_analyses client loads (batch # rest) w =
     (case analyze_batch client loads batch w of
        (batch_analysis, w') \<Rightarrow> batch_analysis # batch_analyses client loads rest w')"

definition no_date :: "rat \<Rightarrow> string" where
  "no_date t = []"

definition sample_submission :: submission where
  "sample_submission =
     \<lparr> s_id = ''a1'', s_title = ''Ghosted'', s_author = None, s_created_utc = 95,
       s_score = 3, s_num_comments = 2, s_selftext = [], s_url = ''u'', s_permalink = ''/r/a1'',
       s_is_self = True \<rparr>"

definition sample_praw_comment :: praw_comment where
  "sample_praw_comment =
     \<lparr> c_id = ''k1'', c_author = Some ''bob'', c_body = ''Same here'', c_score = 1,
       c_created_utc = 96, c_parent_id = ''t3_a1'', c_is_submitter = False \<rparr>"

definition sample_post :: post where
  "sample_post =
     (extract_post_data no_date sample_submission)
       \<lparr>post_comments := [extract_comment no_date sample_praw_comment]\<rparr>"

text \<open>
  Stand-ins for the JSON library in the sample runs: the empty text is malformed and any
  other text \<open>t\<close> parses to \<open>{"problems": [t]}\<close>; a value is written as the name of its type.
\<close>

definition sample_loads :: loads_fn where
  "sample_loads s =
     (if s = [] then Inl (Exn JSONDecodeError ''Expecting value: line 1 column 1 (char 0)'')
      else Inr (JObj [(''problems'', JArr [JStr s])]))"

definition sample_dumps :: dumps_fn where
  "sample_dumps ensure_ascii v = type_name v"

definition sample_script :: "(exn + string option list) list" where
  "sample_script = [Inl (Exn APIError ''Rate limit reached''), Inr [Some ''ghosting'']]"

definition sample_script_ok :: "(exn + string option list) list" where
  "sample_script_ok = [Inr [Some ''ghosting''], Inr [Some ''fake jobs'']]"

definition sample_listing :: "(exn + submission) list" where
  "sample_listing =
     [Inr sample_submission, Inr (sample_submission\<lparr>s_id := ''a2''\<rparr>),
      Inr (sample_submission\<lparr>s_id := ''a0'', s_created_utc := 90\<rparr>)]"

definition sample_forest :: "string \<Rightarrow> exn + forest_item list" where
  "sample_forest i =
     Inr [CommentItem (sample_praw_comment\<lparr>c_body := ''[deleted]''\<rparr>), MoreCommentsItem,
          CommentItem sample_praw_comment, CommentItem (sample_praw_comment\<lparr>c_id := ''k2''\<rparr>)]"

section \<open>Properties of the fetcher\<close>

subsection \<open>Loop invariants\<close>

lemma fetch_posts_loop_window:
  "fetch_posts_loop isoformat cutoff limit listing posts = Inr result \<Longrightarrow>
   \<forall>p \<in> set posts. cutoff \<le> post_created_utc p \<Longrightarrow>
   \<forall>p \<in> set result. cutoff \<le> post_created_utc p"
proof (induction isoformat cutoff limit listing posts rule: fetch_posts_loop.induct)
  case (3 isoformat cutoff limit s rest posts)
  show ?case
  proof (cases "s_created_utc s < cutoff \<or> limit_reached limit posts")
    case True
    with "3.prems" show ?thesis by (auto split: if_splits)
  next
    case False
    have "\<forall>p \<in> set (posts @ [extract_post_data isoformat s]). cutoff \<le> post_created_utc p"
      using False "3.prems"(2) by (auto simp: extract_post_data_def)
    moreover have "fetch_posts_loop isoformat cutoff limit rest (posts @ [extract_post_data isoformat s]) = Inr result"
      using False "3.prems"(1) by simp
    ultimately show ?thesis using "3.IH" False by blast
  qed
qed simp_all

lemma fetch_posts_loop_limit:
  "fetch_posts_loop isoformat cutoff (Some n) listing posts = Inr result \<Longrightarrow>
   0 < n \<Longrightarrow> int (length posts) \<le> n \<Longrightarrow> int (length result) \<le> n"
proof (induction isoformat cutoff "Some n :: int option" listing posts rule: fetch_posts_loop.induct)
  case (3 isoformat cutoff s rest posts)
  show ?case
  proof (cases "s_created_utc s < cutoff \<or> limit_reached (Some n) posts")
    case True
    with "3.prems" show ?thesis by (auto split: if_splits)
  next
    case False
    then have "int (length (posts @ [extract_post_data isoformat s])) \<le> n"
      using "3.prems" by (simp add: limit_reached_def)
    moreover have "fetch_posts_loop isoformat cutoff (Some n) rest (posts @ [extract_post_data isoformat s]) = Inr result"
      using False "3.prems"(1) by simp
    ultimately show ?thesis using "3.hyps" False "3.prems"(2) by blast
  qed
qed simp_all

lemma fetch_posts_loop_negative_limit:
  assumes "fetch_posts_loop isoformat cutoff (Some n) listing posts = Inr result" and "n < 0"
  shows "result = posts"
proof (cases listing)
  case Nil
  then show ?thesis using assms by simp
next
  case (Cons item rest)
  then show ?thesis using assms
    by (cases item) (simp_all add: limit_reached_def split: if_splits)
qed

lemma fetch_posts_loop_zero_limit:
  "fetch_posts_loop isoformat cutoff (Some 0) listing posts =
   fetch_posts_loop isoformat cutoff None listing posts"
proof (induction listing arbitrary: posts)
  case (Cons x rest)
  then show ?case by (cases x) (simp_all add: limit_reached_def)
qed simp

lemma fetch_posts_loop_unlimited:
  "fetch_posts_loop isoformat cutoff None (map Inr subs) posts =
   Inr (posts @ map (extract_post_data isoformat) (takeWhile (\<lambda>s. \<not> s_created_utc s < cutoff) subs))"
  by (induction subs arbitrary: posts) (simp_all add: limit_reached_def)

lemma collect_comments_length:
  "comment_count = length comments \<Longrightarrow>
   length (collect_comments isoformat cap items comments comment_count) \<le> max (length comments) (nat cap)"
proof (induction items arbitrary: comments comment_count)
  case (Cons item rest)
  show ?case
  proof (cases "cap \<le> int comment_count")
    case True
    then show ?thesis by simp
  next
    case False
    then have below: "Suc (length comments) \<le> nat cap" using Cons.prems by linarith
    have skip: "length (collect_comments isoformat cap rest comments comment_count) \<le> nat cap"
      using Cons.IH [OF Cons.prems] below by simp
    show ?thesis
    proof (cases item)
      case MoreCommentsItem
      then show ?thesis using False skip by (simp add: max_def)
    next
      case (CommentItem c)
      have "length (collect_comments isoformat cap rest (comments @ [extract_comment isoformat c]) (Suc comment_count))
            \<le> max (length (comments @ [extract_comment isoformat c])) (nat cap)"
        by (rule Cons.IH) (simp add: Cons.prems)
      then have "length (collect_comments isoformat cap rest (comments @ [extract_comment isoformat c]) (Suc comment_count))
            \<le> nat cap"
        using below by simp
      then show ?thesis using False CommentItem skip by (simp add: max_def)
    qed
  qed
qed simp

lemma collect_comments_bodies:
  "\<forall>c \<in> set comments. comment_body c \<noteq> removed_sentinel \<Longrightarrow>
   \<forall>c \<in> set (collect_comments isoformat cap items comments comment_count).
      comment_body c \<noteq> removed_sentinel"
proof (induction items arbitrary: comments comment_count)
  case (Cons item rest)
  have skip: "\<forall>c \<in> set (collect_comments isoformat cap rest comments comment_count).
      comment_body c \<noteq> removed_sentinel"
    by (rule Cons.IH) (rule Cons.prems)
  show ?case
  proof (cases item)
    case MoreCommentsItem
    then show ?thesis using skip Cons.prems by simp
  next
    case (CommentItem c)
    have "c_body c \<noteq> removed_sentinel \<Longrightarrow>
          \<forall>x \<in> set (collect_comments isoformat cap rest (comments @ [extract_comment isoformat c])
                       (Suc comment_count)). comment_body x \<noteq> removed_sentinel"
      by (rule Cons.IH) (use Cons.prems in \<open>simp add: extract_comment_def\<close>)
    then show ?thesis using CommentItem skip Cons.prems by simp
  qed
qed simp

lemma fetch_comments_attached:
  "fetch_comments isoformat forest posts cap = Inr result \<Longrightarrow> p \<in> set result \<Longrightarrow>
   \<exists>items. post_comments p = collect_comments isoformat cap items [] 0"
proof (induction posts arbitrary: result)
  case (Cons q posts)
  from Cons.prems(1) obtain items rest where
    items: "forest (post_id q) = Inr items" and
    rest: "fetch_comments isoformat forest posts cap = Inr rest" and
    result: "result = q\<lparr>post_comments := collect_comments isoformat cap items [] 0\<rparr> # rest"
    by (auto split: sum.splits)
  show ?case
  proof (cases "p \<in> set rest")
    case True
    then show ?thesis using Cons.IH [OF rest] by blast
  next
    case False
    then have "p = q\<lparr>post_comments := collect_comments isoformat cap items [] 0\<rparr>"
      using Cons.prems(2) result by simp
    then have "post_comments p = collect_comments isoformat cap items [] 0" by simp
    then show ?thesis by blast
  qed
qed simp


subsection \<open>Sample runs of the fetcher\<close>

lemma sample_fetch_unlimited:
  "fetch_posts no_date 86495 sample_listing 1 None =
   Inr [extract_post_data no_date sample_submission,
        extract_post_data no_date (sample_submission\<lparr>s_id := ''a2''\<rparr>)]"
  by (simp add: fetch_posts_def cutoff_timestamp_def sample_listing_def limit_reached_def
      sample_submission_def)

lemma sample_fetch_limit_1:
  "fetch_posts no_date 86495 sample_listing 1 (Some 1) =
   Inr [extract_post_data no_date sample_submission]"
  by (simp add: fetch_posts_def cutoff_timestamp_def sample_listing_def limit_reached_def
      sample_submission_def)

lemma sample_fetch_limit_0:
  "fetch_posts no_date 86495 sample_listing 1 (Some 0) =
   Inr [extract_post_data no_date sample_submission,
        extract_post_data no_date (sample_submission\<lparr>s_id := ''a2''\<rparr>)]"
  by (simp add: fetch_posts_def cutoff_timestamp_def sample_listing_def limit_reached_def
      sample_submission_def)

subsection \<open>The time window\<close>

text \<open>
  Claim C3. Every post \<open>fetch_posts\<close> returns was created at or after the cutoff
  \<open>now - lookback_days\<close> days: the loop stops at the first submission older than the cutoff
  and appends nothing older. This holds for every listing, so in particular for a listing
  in non-increasing order of creation time, and for every \<open>limit\<close>.
\<close>

theorem fetch_posts_within_window:
  "fetch_posts isoformat now new_listing lookback_days limit = Inr posts \<Longrightarrow>
   \<forall>p \<in> set posts. now - 86400 * of_int lookback_days \<le> post_created_utc p"
  unfolding fetch_posts_def cutoff_timestamp_def
  by (erule fetch_posts_loop_window) simp

theorem fetch_posts_within_window_witness:
  "fetch_posts no_date 86495 sample_listing 1 None =
     Inr [extract_post_data no_date sample_submission,
          extract_post_data no_date (sample_submission\<lparr>s_id := ''a2''\<rparr>)]
   \<and> (86495 :: rat) - 86400 * of_int 1
       \<le> post_created_utc (extract_post_data no_date sample_submission)
   \<and> (86495 :: rat) - 86400 * of_int 1
       \<le> post_created_utc (extract_post_data no_date (sample_submission\<lparr>s_id := ''a2''\<rparr>))"
  using fetch_posts_within_window [OF sample_fetch_unlimited] sample_fetch_unlimited
  by simp

subsection \<open>The limit\<close>

text \<open>
  Claim C4. The docstring of \<open>fetch_posts\<close> makes \<open>limit\<close> the maximum number of posts to
  fetch, with \<open>None\<close> for all, and the loop is to stop once the limit is hit. With the limit
  \<open>0\<close> the test \<open>limit and len(posts) >= limit\<close> is false, and the run on the sample
  listing returns both recent submissions: two posts where the limit allows none.
\<close>

theorem fetch_posts_limit_zero_returns_posts:
  "fetch_posts no_date 86495 sample_listing 1 (Some 0) =
     Inr [extract_post_data no_date sample_submission,
          extract_post_data no_date (sample_submission\<lparr>s_id := ''a2''\<rparr>)]
   \<and> \<not> int (length [extract_post_data no_date sample_submission,
                     extract_post_data no_date (sample_submission\<lparr>s_id := ''a2''\<rparr>)]) \<le> 0"
  using sample_fetch_limit_0 by simp

text \<open>
  Every other limit is enforced: with a limit of at least 1 the returned sequence is no
  longer than the limit, and a negative limit stops the loop before the first post.
\<close>

lemma fetch_posts_positive_limit:
  "fetch_posts isoformat now new_listing lookback_days (Some n) = Inr posts \<Longrightarrow> 0 < n \<Longrightarrow>
   int (length posts) \<le> n"
  unfolding fetch_posts_def
  by (erule fetch_posts_loop_limit) simp_all

lemma fetch_posts_negative_limit:
  "fetch_posts isoformat now new_listing lookback_days (Some n) = Inr posts \<Longrightarrow> n < 0 \<Longrightarrow>
   posts = []"
  unfolding fetch_posts_def
  by (erule fetch_posts_loop_negative_limit)

subsection \<open>Attached comments\<close>

lemma sample_fetch_comments:
  "fetch_comments no_date sample_forest [extract_post_data no_date sample_submission] 1 =
   Inr [sample_post]"
  by (simp add: sample_forest_def sample_post_def removed_sentinel_def sample_praw_comment_def)

text \<open>
  Claim C5. Every post \<open>fetch_comments\<close> returns carries at most \<open>max_comments_per_post\<close>
  comments, none of them with the body \<open>'[deleted]'\<close>. The cap is a Python \<open>int\<close>; a
  negative cap stops the loop at once as the cap \<open>0\<close> does, which \<^term>\<open>nat\<close> expresses.
\<close>

theorem fetch_comments_capped:
  "fetch_comments isoformat forest posts max_comments_per_post = Inr result \<Longrightarrow>
   \<forall>p \<in> set result.
      length (post_comments p) \<le> nat max_comments_per_post
      \<and> (\<forall>c \<in> set (post_comments p). comment_body c \<noteq> ''[deleted]'')"
proof
  fix p
  assume result: "fetch_comments isoformat forest posts max_comments_per_post = Inr result"
    and p: "p \<in> set result"
  from fetch_comments_attached [OF result p] obtain items where
    attached: "post_comments p = collect_comments isoformat max_comments_per_post items [] 0"
    by blast
  have "length (post_comments p) \<le> nat max_comments_per_post"
    using collect_comments_length [of 0 "[]" isoformat max_comments_per_post items] attached
    by simp
  moreover have "\<forall>c \<in> set (post_comments p). comment_body c \<noteq> ''[deleted]''"
    using collect_comments_bodies [of "[]" isoformat max_comments_per_post items 0] attached
    by (simp add: removed_sentinel_def)
  ultimately show "length (post_comments p) \<le> nat max_comments_per_post
      \<and> (\<forall>c \<in> set (post_comments p). comment_body c \<noteq> ''[deleted]'')"
    by blast
qed

theorem fetch_comments_capped_witness:
  "fetch_comments no_date sample_forest [extract_post_data no_date sample_submission] 1 =
     Inr [sample_post]
   \<and> post_comments sample_post = [extract_comment no_date sample_praw_comment]
   \<and> length (post_comments sample_post) \<le> nat 1
   \<and> comment_body (extract_comment no_date sample_praw_comment) \<noteq> ''[deleted]''"
  using fetch_comments_capped [OF sample_fetch_comments] sample_fetch_comments
  by (simp add: sample_post_def)

subsection \<open>The limit 0\<close>

text \<open>
  Claim C10. With the limit \<open>0\<close>, \<open>fetch_posts\<close> returns what it returns with no limit; on a
  listing that raises nothing, that is every submission before the first one older than the
  cutoff; and the result can be non-empty, as on the sample listing.
\<close>

theorem fetch_posts_limit_zero_unlimited:
  "fetch_posts isoformat now new_listing lookback_days (Some 0) =
     fetch_posts isoformat now new_listing lookback_days None
   \<and> fetch_posts isoformat now (map Inr submissions) lookback_days (Some 0) =
       Inr (map (extract_post_data isoformat)
              (takeWhile (\<lambda>s. \<not> s_created_utc s < now - 86400 * of_int lookback_days)
                 submissions))
   \<and> fetch_posts no_date 86495 sample_listing 1 (Some 0) =
       Inr [extract_post_data no_date sample_submission,
            extract_post_data no_date (sample_submission\<lparr>s_id := ''a2''\<rparr>)]"
  using sample_fetch_limit_0
  by (simp add: fetch_posts_def cutoff_timestamp_def fetch_posts_loop_zero_limit
      fetch_posts_loop_unlimited)

section \<open>Properties of the analyzer\<close>

subsection \<open>A batch whose call fails\<close>

lemma analyze_batch_raised:
  "client w (analysis_request batch) = (Inl e, w') \<Longrightarrow>
   analyze_batch client loads batch w = (JArr [], w')"
  by (simp add: analyze_batch_def analyze_batch_try_def)

lemma analyze_batch_unparsed:
  "client w (analysis_request batch) = (Inr (Some content # others), w') \<Longrightarrow>
   loads content = Inl e \<Longrightarrow>
   analyze_batch client loads batch w = (JArr [], w')"
  by (simp add: analyze_batch_def analyze_batch_try_def first_content_def loads_content_def)

lemma analyze_batches_append:
  "analyze_batches client loads (xs @ ys) found w =
     (case analyze_batches client loads xs found w of
        (Inl e, w') \<Rightarrow> (Inl e, w')
      | (Inr found', w') \<Rightarrow> analyze_batches client loads ys found' w')"
proof (induction xs arbitrary: found w)
  case (Cons x xs)
  then show ?case by (simp split: prod.splits sum.splits)
qed simp

lemma analyze_batches_skip:
  "analyze_batch client loads batch w = (JArr [], w') \<Longrightarrow>
   analyze_batches client loads (batch # rest) found w = analyze_batches client loads rest found w'"
  by (simp add: contribution_def)

subsection \<open>The range of batch starts\<close>

lemma range_from_step:
  "0 < step \<Longrightarrow> i < n \<Longrightarrow> range_from i n step = i # range_from (i + step) n step"
  by (subst range_from.simps) simp

lemma range_from_done:
  "\<not> (0 < step \<and> i < n) \<Longrightarrow> range_from i n step = []"
  by (subst range_from.simps) simp

lemma range_from_concat:
  "0 < step \<Longrightarrow>
   concat (map (\<lambda>j. take step (drop j xs)) (range_from i (length xs) step)) = drop i xs"
proof (induction i "length xs" step rule: range_from.induct)
  case (1 i step)
  show ?case
  proof (cases "i < length xs")
    case True
    have "concat (map (\<lambda>j. take step (drop j xs)) (range_from i (length xs) step))
          = take step (drop i xs) @ drop (i + step) xs"
      using True 1 by (simp add: range_from_step)
    also have "\<dots> = drop i xs"
      by (metis add.commute append_take_drop_id drop_drop)
    finally show ?thesis .
  next
    case False
    then show ?thesis by (simp add: range_from_done)
  qed
qed

lemma range_from_length:
  "0 < step \<Longrightarrow> length (range_from i n step) = (n - i + step - 1) div step"
proof (induction i n step rule: range_from.induct)
  case (1 i n step)
  show ?case
  proof (cases "i < n")
    case True
    then have "length (range_from i n step) = Suc ((n - (i + step) + step - 1) div step)"
      using 1 by (simp add: range_from_step)
    also have "\<dots> = (n - i + step - 1) div step"
    proof (cases "i + step \<le> n")
      case le: True
      define a where "a = n - (i + step) + step - 1"
      have whole: "n - i + step - 1 = a + step" using le 1(2) by (simp add: a_def)
      have "(a + step) div step = Suc (a div step)" using 1(2) by simp
      then have "Suc (a div step) = (n - i + step - 1) div step" by (simp only: whole)
      then show ?thesis by (simp only: a_def)
    next
      case gt: False
      then have a: "n - (i + step) + step - 1 = step - 1" by simp
      have b: "step \<le> n - i + step - 1" using True by simp
      have c: "n - i + step - 1 < 2 * step" using gt True by simp
      have "(n - i + step - 1) div step = 1"
        using b c 1(2) by (simp add: div_nat_eqI)
      then show ?thesis using a 1(2) by simp
    qed
    finally show ?thesis .
  next
    case False
    then show ?thesis using 1(2) by (simp add: range_from_done)
  qed
qed

lemma range_from_nth:
  "k < length (range_from i n step) \<Longrightarrow> range_from i n step ! k = i + k * step"
proof (induction i n step arbitrary: k rule: range_from.induct)
  case (1 i n step)
  show ?case
  proof (cases "0 < step \<and> i < n")
    case True
    then have unfold: "range_from i n step = i # range_from (i + step) n step"
      by (simp add: range_from_step)
    show ?thesis
    proof (cases k)
      case 0
      then show ?thesis using unfold by simp
    next
      case (Suc j)
      then have "j < length (range_from (i + step) n step)" using "1.prems" unfold by simp
      then have "range_from (i + step) n step ! j = i + step + j * step"
        using "1.IH" True by blast
      then show ?thesis using unfold Suc by simp
    qed
  next
    case False
    then have "range_from i n step = []" by (rule range_from_done)
    then show ?thesis using "1.prems" by simp
  qed
qed

subsection \<open>The accumulated problems\<close>

lemma analyze_batches_flatten:
  "batch_analyses client loads bs w = map JArr results \<Longrightarrow>
   fst (analyze_batches client loads bs found w) = Inr (found @ concat results)"
proof (induction bs arbitrary: found w results)
  case (Cons b bs)
  obtain r w' where step: "analyze_batch client loads b w = (r, w')" by (cases "analyze_batch client loads b w")
  from Cons.prems step obtain xs rest where
    results: "results = xs # rest" and r: "r = JArr xs"
    and tail: "batch_analyses client loads bs w' = map JArr rest"
    by (cases results) auto
  have "contribution r = Inr xs" using r by (simp add: contribution_def)
  then show ?case using step Cons.IH [OF tail, of "found @ xs"] results by simp
qed simp


subsection \<open>Batches of ten\<close>

lemma ceil_div_ten: "((n::nat) + 9) div 10 = n div 10 + (if n mod 10 = 0 then 0 else 1)"
proof -
  have split: "n + 9 = n div 10 * 10 + (n mod 10 + 9)" by simp
  have small: "(n mod 10 + 9) div 10 = (if n mod 10 = 0 then 0 else 1)"
  proof (cases "n mod 10 = 0")
    case True
    then show ?thesis by simp
  next
    case False
    have "n mod 10 < 10" by simp
    then have "10 \<le> n mod 10 + 9" "n mod 10 + 9 < 2 * 10" using False by linarith+
    then have "(n mod 10 + 9) div 10 = 1" by (simp add: div_nat_eqI)
    then show ?thesis using False by simp
  qed
  have "(n + 9) div 10 = (n div 10 * 10 + (n mod 10 + 9)) div 10" by (simp only: split [symmetric])
  also have "\<dots> = n div 10 + (n mod 10 + 9) div 10" by (simp only: div_mult_self3)
  finally show ?thesis by (simp only: small)
qed

lemma full_batch: "Suc k < ((n::nat) + 9) div 10 \<Longrightarrow> k * 10 + 10 \<le> n"
proof -
  assume "Suc k < (n + 9) div 10"
  then have "(k + 2) * 10 \<le> (n + 9) div 10 * 10" by simp
  also have "\<dots> \<le> n + 9" by simp
  finally show ?thesis by simp
qed

lemma last_batch:
  "(n::nat) \<noteq> 0 \<Longrightarrow>
   min 10 (n - ((n + 9) div 10 - 1) * 10) = (if n mod 10 = 0 then 10 else n mod 10)"
proof -
  assume pos: "n \<noteq> 0"
  have n: "n = n div 10 * 10 + n mod 10" by simp
  show ?thesis
  proof (cases "n mod 10 = 0")
    case True
    then have "0 < n div 10" using pos by (metis n add.right_neutral mult_zero_left neq0_conv)
    then have "n - (n div 10 - 1) * 10 = 10" using True n by (simp add: algebra_simps)
    then show ?thesis using True by (simp add: ceil_div_ten)
  next
    case False
    have "n - n div 10 * 10 = n mod 10" by (simp add: minus_div_mult_eq_mod)
    moreover have "n mod 10 < 10" by simp
    ultimately show ?thesis using False by (simp add: ceil_div_ten)
  qed
qed

lemma ceiling_tenth: "\<lceil>(of_nat n :: rat) / 10\<rceil> = int ((n + 9) div 10)"
proof (rule ceiling_unique)
  have "n \<le> 10 * ((n + 9) div 10)" by presburger
  then have "(of_nat n :: rat) \<le> of_nat (10 * ((n + 9) div 10))" by (simp only: of_nat_le_iff)
  then show "(of_nat n :: rat) / 10 \<le> of_int (int ((n + 9) div 10))" by simp
  have "10 * ((n + 9) div 10) < n + 10" by presburger
  then have "(of_nat (10 * ((n + 9) div 10)) :: rat) < of_nat (n + 10)" by (simp only: of_nat_less_iff)
  then show "of_int (int ((n + 9) div 10)) - 1 < (of_nat n :: rat) / 10" by simp
qed

lemma batches_ten:
  "batches posts 10 = Inr (map (\<lambda>i. take 10 (drop i posts)) (range_from 0 (length posts) 10))"
  by (simp add: batches_def batch_starts_def)

lemma batches_ten_nth:
  assumes "k < length (range_from 0 (length posts) 10)"
  shows "length (map (\<lambda>i. take 10 (drop i posts)) (range_from 0 (length posts) 10) ! k)
         = min 10 (length posts - k * 10)"
  using assms range_from_nth [OF assms] by simp

text \<open>
  Claim C2. With the batch size 10 the loop of \<open>analyze_recruitment_problems\<close> takes
  \<open>ceil(P / 10)\<close> batches from \<open>P\<close> posts; every batch but the last has 10 posts, the last
  has \<open>P mod 10\<close> posts, or 10 when that is 0; the batches concatenated in order are the
  posts; the function summarizes what the loop accumulates over these batches; and when
  the results of \<open>_analyze_batch\<close> are lists, the accumulated list is their concatenation
  in batch order.
\<close>

theorem batches_of_ten:
  "\<exists>bs. batches posts 10 = Inr bs
     \<and> int (length bs) = \<lceil>(of_nat (length posts) :: rat) / 10\<rceil>
     \<and> (\<forall>k. Suc k < length bs \<longrightarrow> length (bs ! k) = 10)
     \<and> (posts \<noteq> [] \<longrightarrow>
          length (last bs) = (if length posts mod 10 = 0 then 10 else length posts mod 10))
     \<and> concat bs = posts
     \<and> analyze_recruitment_problems client loads dumps posts 10 w =
         summarize_after client loads dumps (analyze_batches client loads bs [] w)
     \<and> (\<forall>results. batch_analyses client loads bs w = map JArr results \<longrightarrow>
          fst (analyze_batches client loads bs [] w) = Inr (concat results))"
proof -
  define bs where "bs = map (\<lambda>i. take 10 (drop i posts)) (range_from 0 (length posts) 10)"
  have b: "batches posts 10 = Inr bs" by (simp add: bs_def batches_ten)
  have len: "length bs = (length posts + 9) div 10"
    using range_from_length [of 10 0 "length posts"] by (simp add: bs_def)
  have nth: "length (bs ! k) = min 10 (length posts - k * 10)" if "k < length bs" for k
    using that batches_ten_nth [of k posts] by (simp add: bs_def)
  have full: "length (bs ! k) = 10" if "Suc k < length bs" for k
  proof -
    have "k * 10 + 10 \<le> length posts" using that len full_batch [of k "length posts"] by simp
    then show ?thesis using nth [of k] that by simp
  qed
  have final: "length (last bs) = (if length posts mod 10 = 0 then 10 else length posts mod 10)"
    if "posts \<noteq> []"
  proof -
    have pos: "0 < length bs" using that len by (cases posts) (simp_all add: div_greater_zero_iff)
    then have "last bs = bs ! (length bs - 1)" by (simp add: last_conv_nth)
    then have "length (last bs) = min 10 (length posts - (length bs - 1) * 10)"
      using nth [of "length bs - 1"] pos by simp
    moreover have "min 10 (length posts - ((length posts + 9) div 10 - 1) * 10)
                   = (if length posts mod 10 = 0 then 10 else length posts mod 10)"
      using that by (intro last_batch) simp
    ultimately show ?thesis by (simp only: len)
  qed
  have cat: "concat bs = posts" using range_from_concat [of 10 posts 0] by (simp add: bs_def)
  have run: "analyze_recruitment_problems client loads dumps posts 10 w =
         summarize_after client loads dumps (analyze_batches client loads bs [] w)"
    by (simp add: analyze_recruitment_problems_def b)
  have flat: "fst (analyze_batches client loads bs [] w) = Inr (concat results)"
    if "batch_analyses client loads bs w = map JArr results" for results
    using analyze_batches_flatten [OF that, of "[]"] by simp
  have "int (length bs) = \<lceil>(of_nat (length posts) :: rat) / 10\<rceil>"
    by (simp only: len ceiling_tenth)
  with b full final cat run flat show ?thesis by blast
qed


subsection \<open>Sample runs of the analyzer\<close>

lemma sample_batches:
  "batches (replicate 11 sample_post) 10 = Inr [replicate 10 sample_post, [sample_post]]"
proof -
  have "range_from 0 11 10 = [0, 10]"
    by (simp add: range_from_step range_from_done)
  moreover have "drop 10 (replicate 11 sample_post) = [sample_post]"
    by (simp add: numeral_eq_Suc)
  ultimately show ?thesis by (simp add: batches_ten)
qed

lemma sample_analyses:
  "batch_analyses scripted sample_loads [replicate 10 sample_post, [sample_post]] sample_script_ok
   = map JArr [[JStr ''ghosting''], [JStr ''fake jobs'']]"
  by (simp add: analyze_batch_def analyze_batch_try_def scripted_def sample_script_ok_def
      first_content_def loads_content_def sample_loads_def get_problems_def)

theorem batches_of_ten_witness:
  "batches (replicate 11 sample_post) 10 = Inr [replicate 10 sample_post, [sample_post]]
   \<and> int (length [replicate 10 sample_post, [sample_post]])
       = \<lceil>(of_nat (length (replicate 11 sample_post)) :: rat) / 10\<rceil>
   \<and> length ([replicate 10 sample_post, [sample_post]] ! 0) = 10
   \<and> length (last [replicate 10 sample_post, [sample_post]]) = 1
   \<and> concat [replicate 10 sample_post, [sample_post]] = replicate 11 sample_post
   \<and> fst (analyze_batches scripted sample_loads [replicate 10 sample_post, [sample_post]] []
            sample_script_ok)
       = Inr [JStr ''ghosting'', JStr ''fake jobs'']"
proof -
  obtain bs where
    b: "batches (replicate 11 sample_post) 10 = Inr bs"
    and len: "int (length bs) = \<lceil>(of_nat (length (replicate 11 sample_post)) :: rat) / 10\<rceil>"
    and full: "\<forall>k. Suc k < length bs \<longrightarrow> length (bs ! k) = 10"
    and final: "replicate 11 sample_post \<noteq> [] \<longrightarrow>
        length (last bs) = (if length (replicate 11 sample_post) mod 10 = 0 then 10
                            else length (replicate 11 sample_post) mod 10)"
    and cat: "concat bs = replicate 11 sample_post"
    and flat: "\<forall>results. batch_analyses scripted sample_loads bs sample_script_ok = map JArr results \<longrightarrow>
          fst (analyze_batches scripted sample_loads bs [] sample_script_ok) = Inr (concat results)"
    using batches_of_ten [of "replicate 11 sample_post" scripted sample_loads sample_dumps
        sample_script_ok]
    by blast
  have bs: "bs = [replicate 10 sample_post, [sample_post]]" using b sample_batches by simp
  have "length (bs ! 0) = 10" using full bs by simp
  moreover have "length (last bs) = 1" using final by simp
  moreover have "fst (analyze_batches scripted sample_loads bs [] sample_script_ok)
      = Inr (concat [[JStr ''ghosting''], [JStr ''fake jobs'']])"
    using flat sample_analyses bs by blast
  ultimately show ?thesis using b len cat bs by simp
qed

subsection \<open>Failure of one batch\<close>

text \<open>
  Claim C1. When the completion call of a batch raises, or the content of its first choice
  does not parse, \<open>_analyze_batch\<close> returns the empty list (it has no exceptional result:
  \<open>except Exception\<close> catches whatever the \<open>try\<close> raised), the loop goes on to the
  following batches with the problems found so far, and the result of
  \<open>analyze_recruitment_problems\<close> is the summary over the other batches.
\<close>

theorem failed_batch_contributes_nothing:
  assumes "batches posts 10 = Inr (before @ batch # after)"
    and "analyze_batches client loads before [] w = (Inr found, w1)"
    and "client w1 (analysis_request batch) = (outcome, w2)"
    and "(\<exists>e. outcome = Inl e)
         \<or> (\<exists>content others e. outcome = Inr (Some content # others) \<and> loads content = Inl e)"
  shows "analyze_batch client loads batch w1 = (JArr [], w2)
         \<and> analyze_batches client loads (before @ batch # after) [] w
             = analyze_batches client loads after found w2
         \<and> analyze_recruitment_problems client loads dumps posts 10 w
             = summarize_after client loads dumps (analyze_batches client loads after found w2)"
proof -
  have skipped: "analyze_batch client loads batch w1 = (JArr [], w2)"
    using assms(3,4) analyze_batch_raised analyze_batch_unparsed by metis
  have "analyze_batches client loads (before @ batch # after) [] w
        = analyze_batches client loads (batch # after) found w1"
    using assms(2) by (simp add: analyze_batches_append)
  also have "\<dots> = analyze_batches client loads after found w2"
    by (rule analyze_batches_skip [OF skipped])
  finally have continues: "analyze_batches client loads (before @ batch # after) [] w
        = analyze_batches client loads after found w2" .
  then show ?thesis using skipped assms(1) by (simp add: analyze_recruitment_problems_def)
qed

lemma sample_failed_run:
  "summarize_after scripted sample_loads sample_dumps
     (analyze_batches scripted sample_loads [[sample_post]] [] [Inr [Some ''ghosting'']])
   = (Inr (error_report ''Connection error.''), [])"
  by (simp add: summarize_after_def analyze_batch_def analyze_batch_try_def scripted_def
      first_content_def loads_content_def sample_loads_def get_problems_def contribution_def
      summarize_problems_def summarize_try_def)

theorem failed_batch_contributes_nothing_witness:
  "analyze_batch scripted sample_loads (replicate 10 sample_post) sample_script
     = (JArr [], [Inr [Some ''ghosting'']])
   \<and> analyze_recruitment_problems scripted sample_loads sample_dumps (replicate 11 sample_post)
       10 sample_script
     = (Inr (error_report ''Connection error.''), [])"
proof -
  have a: "batches (replicate 11 sample_post) 10 = Inr ([] @ replicate 10 sample_post # [[sample_post]])"
    using sample_batches by simp
  have b: "analyze_batches scripted sample_loads [] [] sample_script = (Inr [], sample_script)"
    by simp
  have c: "scripted sample_script (analysis_request (replicate 10 sample_post))
           = (Inl (Exn APIError ''Rate limit reached''), [Inr [Some ''ghosting'']])"
    by (simp add: scripted_def sample_script_def)
  have d: "(\<exists>e. Inl (Exn APIError ''Rate limit reached'') = (Inl e :: exn + string option list))
         \<or> (\<exists>content others e. (Inl (Exn APIError ''Rate limit reached'') :: exn + string option list)
               = Inr (Some content # others) \<and> sample_loads content = Inl e)"
    by simp
  show ?thesis
    using failed_batch_contributes_nothing [OF a b c d, of sample_dumps] sample_failed_run
    by simp
qed

subsection \<open>The text sent to the completion capability\<close>

lemma logged_analyze_batch:
  "snd (snd (analyze_batch (logged client) loads posts (w, sent))) = sent @ [analysis_request posts]"
  by (simp add: analyze_batch_def analyze_batch_try_def logged_def
      split: prod.splits sum.splits)

lemma logged_summarize:
  "all_problems \<noteq> [] \<Longrightarrow>
   snd (snd (summarize_problems (logged client) loads dumps all_problems (w, sent)))
   = sent @ [summary_request dumps all_problems]"
  by (simp add: summarize_problems_def summarize_try_def logged_def
      split: prod.splits sum.splits)

text \<open>
  Claim C8. \<open>_analyze_batch\<close> sends exactly one request; its prompt is the template around
  the first 8000 characters of the combined excerpt, which joins the excerpts of the posts;
  the excerpt of a post is its title, its body text when there is one, and a line for each
  of its first 5 comments with the first 200 characters of the comment body.
  \<open>_summarize_problems\<close>, for problems to summarize, sends exactly one request; its prompt
  is the template around the first 10000 characters of the serialized problem list.
\<close>

theorem excerpts_truncated:
  "snd (snd (analyze_batch (logged client) loads posts (w, sent))) = sent @ [analysis_request posts]
   \<and> (\<exists>excerpt.
         user_message (analysis_request posts)
           = analysis_prompt_head @ excerpt @ analysis_prompt_tail
         \<and> excerpt = take 8000 (join ''\<newline>---\<newline>'' (map post_content posts))
         \<and> length excerpt \<le> 8000)
   \<and> (\<exists>lines.
         post_content p
           = ''POST: '' @ post_title p @ ''\<newline>''
             @ (if post_selftext p = [] then [] else ''BODY: '' @ post_selftext p @ ''\<newline>'')
             @ (if lines = [] then [] else ''TOP COMMENTS:\<newline>'' @ concat lines)
         \<and> lines = map (\<lambda>c. ''- '' @ take 200 (comment_body c) @ ''...\<newline>'')
                    (take 5 (post_comments p))
         \<and> length lines \<le> 5)
   \<and> (all_problems \<noteq> [] \<longrightarrow>
         snd (snd (summarize_problems (logged client) loads dumps all_problems (w, sent)))
           = sent @ [summary_request dumps all_problems])
   \<and> (\<exists>problems_text.
         user_message (summary_request dumps all_problems)
           = summary_prompt_head @ problems_text @ summary_prompt_tail
         \<and> problems_text = take 10000 (dumps True (JArr all_problems))
         \<and> length problems_text \<le> 10000)"
proof -
  have c1: "snd (snd (analyze_batch (logged client) loads posts (w, sent)))
      = sent @ [analysis_request posts]"
    by (rule logged_analyze_batch)
  have c2: "\<exists>excerpt.
         user_message (analysis_request posts)
           = analysis_prompt_head @ excerpt @ analysis_prompt_tail
         \<and> excerpt = take 8000 (join ''\<newline>---\<newline>'' (map post_content posts))
         \<and> length excerpt \<le> 8000"
    by (rule exI [of _ "take 8000 (join ''\<newline>---\<newline>'' (map post_content posts))"])
      (simp add: analysis_request_def analysis_prompt_def prepare_content_for_analysis_def)
  have c3: "\<exists>lines.
         post_content p
           = ''POST: '' @ post_title p @ ''\<newline>''
             @ (if post_selftext p = [] then [] else ''BODY: '' @ post_selftext p @ ''\<newline>'')
             @ (if lines = [] then [] else ''TOP COMMENTS:\<newline>'' @ concat lines)
         \<and> lines = map (\<lambda>c. ''- '' @ take 200 (comment_body c) @ ''...\<newline>'')
                    (take 5 (post_comments p))
         \<and> length lines \<le> 5"
    by (rule exI [of _ "map (\<lambda>c. ''- '' @ take 200 (comment_body c) @ ''...\<newline>'')
                          (take 5 (post_comments p))"])
      (simp add: post_content_def comment_line_def [abs_def])
  have c4: "all_problems \<noteq> [] \<longrightarrow>
         snd (snd (summarize_problems (logged client) loads dumps all_problems (w, sent)))
           = sent @ [summary_request dumps all_problems]"
    by (simp add: logged_summarize)
  have c5: "\<exists>problems_text.
         user_message (summary_request dumps all_problems)
           = summary_prompt_head @ problems_text @ summary_prompt_tail
         \<and> problems_text = take 10000 (dumps True (JArr all_problems))
         \<and> length problems_text \<le> 10000"
    by (rule exI [of _ "take 10000 (dumps True (JArr all_problems))"])
      (simp add: summary_request_def summary_prompt_def)
  show ?thesis
    by (intro conjI; (fact c1 | fact c2 | fact c3 | fact c4 | fact c5))
qed


theorem excerpts_truncated_witness:
  "snd (snd (analyze_batch (logged scripted) sample_loads [sample_post] (sample_script_ok, [])))
     = [analysis_request [sample_post]]
   \<and> user_message (analysis_request [sample_post])
       = analysis_prompt_head @ ''POST: Ghosted\<newline>TOP COMMENTS:\<newline>- Same here...\<newline>''
         @ analysis_prompt_tail
   \<and> [JStr ''ghosting''] \<noteq> []
   \<and> snd (snd (summarize_problems (logged scripted) sample_loads sample_dumps [JStr ''ghosting'']
                 (sample_script_ok, [])))
       = [summary_request sample_dumps [JStr ''ghosting'']]
   \<and> user_message (summary_request sample_dumps [JStr ''ghosting''])
       = summary_prompt_head @ ''list'' @ summary_prompt_tail"
proof -
  note run = excerpts_truncated [where client = scripted and loads = sample_loads
      and posts = "[sample_post]" and w = sample_script_ok and sent = "[]" and p = sample_post
      and all_problems = "[JStr ''ghosting'']" and dumps = sample_dumps]
  have content: "post_content sample_post
      = ''POST: Ghosted\<newline>TOP COMMENTS:\<newline>- Same here...\<newline>''"
    using run [THEN conjunct2, THEN conjunct2, THEN conjunct1]
    by (simp add: sample_post_def extract_post_data_def extract_comment_def
        sample_submission_def sample_praw_comment_def)
  have a: "snd (snd (analyze_batch (logged scripted) sample_loads [sample_post]
      (sample_script_ok, []))) = [analysis_request [sample_post]]"
    using run [THEN conjunct1] by simp
  have b: "user_message (analysis_request [sample_post])
       = analysis_prompt_head @ ''POST: Ghosted\<newline>TOP COMMENTS:\<newline>- Same here...\<newline>''
         @ analysis_prompt_tail"
    using run [THEN conjunct2, THEN conjunct1] content by simp
  have c: "snd (snd (summarize_problems (logged scripted) sample_loads sample_dumps
      [JStr ''ghosting''] (sample_script_ok, []))) = [summary_request sample_dumps [JStr ''ghosting'']]"
    using run [THEN conjunct2, THEN conjunct2, THEN conjunct2, THEN conjunct1] by simp
  have d: "user_message (summary_request sample_dumps [JStr ''ghosting''])
       = summary_prompt_head @ ''list'' @ summary_prompt_tail"
    using run [THEN conjunct2, THEN conjunct2, THEN conjunct2, THEN conjunct2]
    by (simp add: sample_dumps_def)
  show ?thesis using a b c d by simp
qed

subsection \<open>No problems to summarize\<close>

lemma sample_single_batch: "batches [sample_post] 10 = Inr [[sample_post]]"
proof -
  have "range_from 0 (Suc 0) 10 = [0]"
    by (simp add: range_from_step range_from_done)
  then show ?thesis by (simp add: batches_ten)
qed

lemma sample_all_failed:
  "analyze_batches scripted sample_loads [[sample_post]] [] [] = (Inr [], [])"
  by (simp add: analyze_batch_def analyze_batch_try_def scripted_def contribution_def)

text \<open>
  Claim C6. Given no problems, \<open>_summarize_problems\<close> returns
  \<open>{"error": "No problems identified"}\<close>; it raises nothing and sends no request (the state
  of the service and the log of requests are unchanged). When the loop of the analysis
  ends with no problems, \<open>main\<close> writes that report to \<open>output + ".json"\<close>.
\<close>

theorem empty_problems_report:
  "summarize_problems (logged client) loads dumps [] (w, sent)
     = (JObj [(''error'', JStr ''No problems identified'')], (w, sent))
   \<and> (batches posts 10 = Inr bs \<and> analyze_batches client loads bs [] w = (Inr [], w') \<longrightarrow>
        analyze_and_report client loads dumps posts output_prefix w fs
          = (Inr (JObj [(''error'', JStr ''No problems identified'')]), w',
             fs(output_prefix @ ''.json'' \<mapsto> dumps False (JObj [(''error'', JStr ''No problems identified'')]))))"
  by (simp add: summarize_problems_def error_report_def analyze_and_report_def
      analyze_recruitment_problems_def summarize_after_def generate_report_def)

theorem empty_problems_report_witness:
  "summarize_problems (logged scripted) sample_loads sample_dumps [] ([], [])
     = (JObj [(''error'', JStr ''No problems identified'')], ([], []))
   \<and> batches [sample_post] 10 = Inr [[sample_post]]
   \<and> analyze_batches scripted sample_loads [[sample_post]] [] [] = (Inr [], [])
   \<and> analyze_and_report scripted sample_loads sample_dumps [sample_post] ''report'' [] Map.empty
       = (Inr (JObj [(''error'', JStr ''No problems identified'')]), [],
          [''report.json'' \<mapsto> ''dict''])"
  using empty_problems_report [where client = scripted and loads = sample_loads
      and dumps = sample_dumps and w = "[]" and sent = "[]" and posts = "[sample_post]"
      and bs = "[[sample_post]]" and w' = "[]" and output_prefix = "''report''" and fs = Map.empty]
    sample_single_batch sample_all_failed
  by (simp add: sample_dumps_def)

subsection \<open>Failure of the summary call\<close>

text \<open>
  Claim C7. With problems to summarize, when the completion call of \<open>_summarize_problems\<close>
  raises \<open>e\<close>, the function returns \<open>{"error": str(e)}\<close> and raises nothing.
\<close>

theorem summarizer_error_reported:
  "all_problems \<noteq> [] \<Longrightarrow> client w (summary_request dumps all_problems) = (Inl e, w') \<Longrightarrow>
   summarize_problems client loads dumps all_problems w
     = (JObj [(''error'', JStr (str_exn e))], w')"
  by (simp add: summarize_problems_def summarize_try_def error_report_def)

theorem summarizer_error_reported_witness:
  "[JStr ''ghosting''] \<noteq> []
   \<and> scripted [] (summary_request sample_dumps [JStr ''ghosting''])
       = (Inl (Exn APIError ''Connection error.''), [])
   \<and> summarize_problems scripted sample_loads sample_dumps [JStr ''ghosting''] []
       = (JObj [(''error'', JStr ''Connection error.'')], [])"
proof -
  have a: "[JStr ''ghosting''] \<noteq> []" by simp
  have b: "scripted [] (summary_request sample_dumps [JStr ''ghosting''])
       = (Inl (Exn APIError ''Connection error.''), [])"
    by (simp add: scripted_def)
  show ?thesis
    using summarizer_error_reported [where client = scripted and loads = sample_loads
        and dumps = sample_dumps and all_problems = "[JStr ''ghosting'']" and w = "[]"
        and e = "Exn APIError ''Connection error.''" and w' = "[]"] a b
    by simp
qed

section \<open>The raw data files\<close>

text \<open>
  The raw-save path writes no file for an empty post sequence. For a non-empty one the file
  holds the text \<open>json.dump\<close> gives for the dictionaries of the posts, and the
  load-from-file path applied to that file returns what \<open>json.load\<close> makes of this text.
  Whether that is the value written is decided by the JSON library and by the formatting
  and parsing of Python floats (\<open>created_utc\<close>), which are parameters of this model.
\<close>

lemma save_raw_data_empty:
  "save_raw_data dumps timestamp save_raw [] fs = fs"
  by (simp add: save_raw_data_def)

lemma load_saved_raw_data:
  "posts \<noteq> [] \<Longrightarrow>
   load_from_file loads (save_raw_data dumps timestamp True posts fs) (raw_filename timestamp)
     = (case loads (dumps False (posts_json posts)) of Inl e \<Rightarrow> Inl 1 | Inr v \<Rightarrow> Inr v)"
  by (simp add: save_raw_data_def load_from_file_def)


end
